theory Spec2Isabelle
  imports Main
begin

section \<open>Python values, exceptions and HTTP responses\<close>

text \<open>
  The values that travel through \<^verbatim>\<open>search_service/api/filter.py\<close>: what a JSON request body
  decodes to and what the parsed arguments hold. Python is dynamically typed, so one datatype
  covers them; floating-point numbers are left out (the handler never looks at a number).
  A \<open>str\<close> is a \<open>string\<close>: the only character the handler looks for is the colon, an ASCII
  character, which occurs in a text exactly when its byte occurs in the text's UTF-8 encoding.
\<close>

datatype pyval =
    PNone
  | PBool bool
  | PInt int
  | PStr string
  | PList "pyval list"
  | PDict "(string \<times> pyval) list"

text \<open>
  A raised exception: an ordinary Python exception with the classes of its type (its method
  resolution order, most specific first) and its text, or the HTTP exception that
  \<^verbatim>\<open>abort(code, message=...)\<close> raises, with its status code and its messages.
\<close>

datatype exception =
    PyError "string list" string
  | HTTPException nat "(string \<times> string) list"

text \<open>\<^verbatim>\<open>isinstance(e, RuntimeError)\<close>, the test of an \<^verbatim>\<open>except RuntimeError\<close> clause.\<close>

fun isinstance_RuntimeError :: "exception \<Rightarrow> bool" where
  "isinstance_RuntimeError (PyError mro text) = (''RuntimeError'' \<in> set mro)"
| "isinstance_RuntimeError (HTTPException code messages) = False"

definition TypeError :: "string \<Rightarrow> exception" where
  "TypeError text = PyError [''TypeError'', ''Exception'', ''BaseException'', ''object''] text"

definition KeyError :: "string \<Rightarrow> exception" where
  "KeyError text =
     PyError [''KeyError'', ''LookupError'', ''Exception'', ''BaseException'', ''object''] text"

datatype HTTPStatus = OK | BAD_REQUEST | INTERNAL_SERVER_ERROR

fun status_value :: "HTTPStatus \<Rightarrow> nat" where
  "status_value OK = 200"
| "status_value BAD_REQUEST = 400"
| "status_value INTERNAL_SERVER_ERROR = 500"

text \<open>
  The first component of what \<^verbatim>\<open>post\<close> returns: the dictionary \<^verbatim>\<open>{'message': msg}\<close>, or the
  sequence of serialized results.
\<close>

datatype 'j body = Dict "(string \<times> string) list" | Sequence "'j list"

type_synonym 'j response = "'j body \<times> HTTPStatus"

section \<open>The parsed arguments\<close>

text \<open>
  \<^verbatim>\<open>parse_args\<close> returns a namespace, a dictionary from argument names to values.
  \<^verbatim>\<open>args.get(k)\<close> is \<open>None\<close> for a missing key; \<^verbatim>\<open>args[k]\<close> raises \<open>KeyError\<close>.
\<close>

type_synonym namespace = "string \<rightharpoonup> pyval"

definition args_get :: "namespace \<Rightarrow> string \<Rightarrow> pyval" where
  "args_get args k = (case args k of None \<Rightarrow> PNone | Some v \<Rightarrow> v)"

definition args_getitem :: "namespace \<Rightarrow> string \<Rightarrow> exception + pyval" where
  "args_getitem args k = (case args k of None \<Rightarrow> Inl (KeyError k) | Some v \<Rightarrow> Inr v)"

text \<open>
  \<^verbatim>\<open>':' in query_term\<close> (line 49). On a \<open>str\<close> it is the substring test, which for a needle of
  one character is membership; on a list it compares the elements with the needle, on a
  dictionary the keys; on \<open>None\<close>, a \<open>bool\<close> or an \<open>int\<close> it raises \<open>TypeError\<close>.
\<close>

fun colon_in :: "pyval \<Rightarrow> exception + bool" where
  "colon_in (PStr s) = Inr (CHR '':'' \<in> set s)"
| "colon_in (PList xs) = Inr (PStr '':'' \<in> set xs)"
| "colon_in (PDict kvs) = Inr ('':'' \<in> set (map fst kvs))"
| "colon_in PNone = Inl (TypeError ''argument of type 'NoneType' is not iterable'')"
| "colon_in (PBool b) = Inl (TypeError ''argument of type 'bool' is not iterable'')"
| "colon_in (PInt n) = Inl (TypeError ''argument of type 'int' is not iterable'')"

section \<open>The request parser\<close>

text \<open>
  The parser that \<^verbatim>\<open>BaseFilterAPI.__init__\<close> configures (lines 24 to 29): the flag
  \<^verbatim>\<open>bundle_errors\<close> and the arguments added to it, each with its name, \<^verbatim>\<open>required\<close>,
  \<^verbatim>\<open>default\<close> and \<^verbatim>\<open>type\<close>.
\<close>

datatype pytype = type_str | type_int | type_dict

record argument =
  arg_name :: string
  arg_required :: bool
  arg_default :: pyval
  arg_type :: pytype

record RequestParser =
  bundle_errors :: bool
  arguments :: "argument list"

section \<open>The resources\<close>

text \<open>
  One call of \<^verbatim>\<open>proxy.fetch_search_results_with_filter\<close>, by its keyword arguments.
\<close>

record proxy_call =
  search_request :: pyval
  query_term :: pyval
  page_index :: pyval
  index :: pyval

text \<open>
  The attributes of a resource object. \<open>proxy\<close> is the proxy client's
  \<^verbatim>\<open>fetch_search_results_with_filter\<close>: it returns the results or raises. \<open>schema\<close> is what
  \<^verbatim>\<open>schema(many=True).dump(results).data\<close> applies to each result, taken as a function
  that returns for every result. \<open>parser\<close> is the parser's
  \<^verbatim>\<open>parse_args\<close>, from the \<open>strict\<close> flag and the request being served to the namespace or
  to the exception it raises.
\<close>

record ('req, 'r, 'j) BaseFilterAPI =
  proxy :: "proxy_call \<Rightarrow> exception + 'r list"
  schema :: "'r \<Rightarrow> 'j"
  parser :: "bool \<Rightarrow> 'req \<Rightarrow> exception + namespace"

text \<open>
  \<^verbatim>\<open>BaseFilterAPI.__init__\<close> (lines 21 to 31). What the module imports is a parameter:
  \<open>reqparse\<close> is the \<^verbatim>\<open>parse_args\<close> of the parsing library's \<^verbatim>\<open>RequestParser\<close>,
  \<open>get_proxy_client\<close> the proxy client, \<open>TABLE_INDEX\<close> the constant of
  \<^verbatim>\<open>search_service.api.table\<close>. An argument added without \<^verbatim>\<open>required\<close> or \<^verbatim>\<open>default\<close>
  has the library's \<open>False\<close> and \<open>None\<close>.
\<close>

definition BaseFilterAPI_init ::
  "(RequestParser \<Rightarrow> bool \<Rightarrow> 'req \<Rightarrow> exception + namespace) \<Rightarrow>
   (proxy_call \<Rightarrow> exception + 'r list) \<Rightarrow> string \<Rightarrow> ('r \<Rightarrow> 'j) \<Rightarrow> ('req, 'r, 'j) BaseFilterAPI"
where
  "BaseFilterAPI_init reqparse get_proxy_client TABLE_INDEX schema' =
     \<lparr>proxy = get_proxy_client,
      schema = schema',
      parser = reqparse
        \<lparr>bundle_errors = True,
         arguments =
           [\<lparr>arg_name = ''index'', arg_required = False,
             arg_default = PStr TABLE_INDEX, arg_type = type_str\<rparr>,
            \<lparr>arg_name = ''page_index'', arg_required = False,
             arg_default = PInt 0, arg_type = type_int\<rparr>,
            \<lparr>arg_name = ''query_term'', arg_required = False,
             arg_default = PNone, arg_type = type_str\<rparr>,
            \<lparr>arg_name = ''search_request'', arg_required = False,
             arg_default = PNone, arg_type = type_dict\<rparr>]\<rparr>\<rparr>"

text \<open>
  \<^verbatim>\<open>BaseFilterAPI.post\<close> (lines 33 to 63). The result is what the method returns or the
  exception it raises, together with the calls it made to the proxy, in order.
  An exception of \<^verbatim>\<open>parse_args\<close>, of the membership test or of \<^verbatim>\<open>args['index']\<close> leaves
  the method; so does one of the proxy, which \<^verbatim>\<open>except RuntimeError as e: raise e\<close> raises
  again when it is a \<open>RuntimeError\<close> and does not catch otherwise.
\<close>

definition BaseFilterAPI_post ::
  "('req, 'r, 'j) BaseFilterAPI \<Rightarrow> 'req \<Rightarrow> (exception + 'j response) \<times> proxy_call list"
where
  "BaseFilterAPI_post self request =
     (case parser self True request of
        Inl e \<Rightarrow> (Inl e, [])
      | Inr args \<Rightarrow>
          let page_index' = args_get args ''page_index'';
              search_request' = args_get args ''search_request''
          in
            if search_request' = PNone then
              (Inr (Dict [(''message'',
                  ''The search request payload is not available in the request'')],
                 BAD_REQUEST), [])
            else
              let query_term' = args_get args ''query_term'' in
              (case colon_in query_term' of
                 Inl e \<Rightarrow> (Inl e, [])
               | Inr True \<Rightarrow>
                   (Inr (Dict [(''message'',
                       ''The query term contains an invalid character'')],
                      BAD_REQUEST), [])
               | Inr False \<Rightarrow>
                   (case args_getitem args ''index'' of
                      Inl e \<Rightarrow> (Inl e, [])
                    | Inr index' \<Rightarrow>
                        let call = \<lparr>search_request = search_request',
                                    query_term = query_term',
                                    page_index = page_index',
                                    index = index'\<rparr>
                        in
                          (case proxy self call of
                             Inl e \<Rightarrow>
                               (if isinstance_RuntimeError e then Inl e else Inl e, [call])
                           | Inr results \<Rightarrow>
                               (Inr (Sequence (map (schema self) results), OK), [call])))))"

text \<open>
  \<^verbatim>\<open>SearchTableFilterAPI\<close> (lines 66 to 79): the base resource with the table schema, and a
  \<^verbatim>\<open>post\<close> that turns a \<open>RuntimeError\<close> of the base method into the 500 response.
\<close>

definition SearchTableFilterAPI_init ::
  "(RequestParser \<Rightarrow> bool \<Rightarrow> 'req \<Rightarrow> exception + namespace) \<Rightarrow>
   (proxy_call \<Rightarrow> exception + 'r list) \<Rightarrow> string \<Rightarrow> ('r \<Rightarrow> 'j) \<Rightarrow> ('req, 'r, 'j) BaseFilterAPI"
where
  "SearchTableFilterAPI_init reqparse get_proxy_client TABLE_INDEX SearchTableResultSchema =
     BaseFilterAPI_init reqparse get_proxy_client TABLE_INDEX SearchTableResultSchema"

definition SearchTableFilterAPI_post ::
  "('req, 'r, 'j) BaseFilterAPI \<Rightarrow> 'req \<Rightarrow> (exception + 'j response) \<times> proxy_call list"
where
  "SearchTableFilterAPI_post self request =
     (case BaseFilterAPI_post self request of
        (Inl e, calls) \<Rightarrow>
          if isinstance_RuntimeError e then
            (Inr (Dict [(''message'',
                ''Exception encountered while processing search request'')],
               INTERNAL_SERVER_ERROR), calls)
          else (Inl e, calls)
      | (Inr returned, calls) \<Rightarrow> (Inr returned, calls))"

text \<open>\<^verbatim>\<open>SearchDashboardFilterAPI\<close> (lines 82 to 95), with the dashboard schema.\<close>

definition SearchDashboardFilterAPI_init ::
  "(RequestParser \<Rightarrow> bool \<Rightarrow> 'req \<Rightarrow> exception + namespace) \<Rightarrow>
   (proxy_call \<Rightarrow> exception + 'r list) \<Rightarrow> string \<Rightarrow> ('r \<Rightarrow> 'j) \<Rightarrow> ('req, 'r, 'j) BaseFilterAPI"
where
  "SearchDashboardFilterAPI_init reqparse get_proxy_client TABLE_INDEX
       SearchDashboardResultSchema =
     BaseFilterAPI_init reqparse get_proxy_client TABLE_INDEX SearchDashboardResultSchema"

definition SearchDashboardFilterAPI_post ::
  "('req, 'r, 'j) BaseFilterAPI \<Rightarrow> 'req \<Rightarrow> (exception + 'j response) \<times> proxy_call list"
where
  "SearchDashboardFilterAPI_post self request =
     (case BaseFilterAPI_post self request of
        (Inl e, calls) \<Rightarrow>
          if isinstance_RuntimeError e then
            (Inr (Dict [(''message'',
                ''Exception encountered while processing search request'')],
               INTERNAL_SERVER_ERROR), calls)
          else (Inl e, calls)
      | (Inr returned, calls) \<Rightarrow> (Inr returned, calls))"

section \<open>Parsing a request body\<close>

text \<open>
  \<^verbatim>\<open>RequestParser.parse_args\<close> belongs to the parsing library that the module imports; only
  its configuration (lines 24 to 29) and its call (line 40) are in the source. The
  definitions of this section model it from section 4.1 of the specification, on a request
  body given by its fields in order.
\<close>

type_synonym request_body = "(string \<times> pyval) list"

text \<open>
  Modelled from the spec: the parsing of one argument by \<^verbatim>\<open>RequestParser.parse_args\<close>, which
  is not in the source. A field that the body omits takes the argument's default
  (\<^emph>\<open>page_index omitted defaults to 0; index omitted defaults to the well-known table index
  name\<close>); a field that the body has is checked against the declared type. Which values a
  declared type accepts, and what they are parsed to, is the parameter \<open>convert\<close>
  (\<open>Inl\<close> the message of a wrong type): the specification does not say.
\<close>

definition parse_argument ::
  "(pytype \<Rightarrow> pyval \<Rightarrow> string + pyval) \<Rightarrow> argument \<Rightarrow> request_body \<Rightarrow> string + pyval"
where
  "parse_argument convert a request_body =
     (case map_of request_body (arg_name a) of
        None \<Rightarrow>
          if arg_required a then Inl ''missing required field'' else Inr (arg_default a)
      | Some v \<Rightarrow> convert (arg_type a) v)"

text \<open>
  Modelled from the spec: the fields of wrong type that \<^verbatim>\<open>RequestParser.parse_args\<close> finds,
  each with its message, in the order of the parser's arguments.
\<close>

definition wrong_fields ::
  "(pytype \<Rightarrow> pyval \<Rightarrow> string + pyval) \<Rightarrow> RequestParser \<Rightarrow> request_body \<Rightarrow>
   (string \<times> string) list"
where
  "wrong_fields convert p request_body =
     concat (map (\<lambda>a. case parse_argument convert a request_body of
                          Inl m \<Rightarrow> [(arg_name a, m)]
                        | Inr v \<Rightarrow> [])
                 (arguments p))"

text \<open>
  Modelled from the spec: the fields of the body that are none of the parser's arguments
  (\<^emph>\<open>any field present in the request body that is not one of the four recognized fields\<close>),
  as \<^verbatim>\<open>RequestParser.parse_args(strict=True)\<close> finds them.
\<close>

definition unrecognized_fields :: "RequestParser \<Rightarrow> request_body \<Rightarrow> (string \<times> string) list" where
  "unrecognized_fields p request_body =
     map (\<lambda>k. (k, ''unrecognized field''))
       (filter (\<lambda>k. k \<notin> set (map arg_name (arguments p))) (map fst request_body))"

text \<open>
  Modelled from the spec: the namespace that \<^verbatim>\<open>RequestParser.parse_args\<close> returns, one entry
  for each argument parsed.
\<close>

definition parsed_namespace ::
  "(pytype \<Rightarrow> pyval \<Rightarrow> string + pyval) \<Rightarrow> RequestParser \<Rightarrow> request_body \<Rightarrow> namespace"
where
  "parsed_namespace convert p request_body =
     map_of (concat (map (\<lambda>a. case parse_argument convert a request_body of
                                  Inl m \<Rightarrow> []
                                | Inr v \<Rightarrow> [(arg_name a, v)])
                         (arguments p)))"

text \<open>
  Modelled from the spec: \<^verbatim>\<open>RequestParser.parse_args\<close>, which is not in the source.
  \<^emph>\<open>On parse failure (unrecognized field, wrong type), respond with an error listing all
  violations (conceptually a 400-class response)\<close>: the violations are the fields of wrong
  type and, when \<open>strict\<close>, the unrecognized fields; with \<^verbatim>\<open>bundle_errors\<close> all of them are
  reported (\<^emph>\<open>bundle/report all parse errors together, not just the first\<close>), without it the
  first one only. With no violation the namespace is returned.
\<close>

definition RequestParser_parse_args ::
  "(pytype \<Rightarrow> pyval \<Rightarrow> string + pyval) \<Rightarrow> RequestParser \<Rightarrow> bool \<Rightarrow> request_body \<Rightarrow>
   exception + namespace"
where
  "RequestParser_parse_args convert p strict request_body =
     (case wrong_fields convert p request_body @
           (if strict then unrecognized_fields p request_body else []) of
        [] \<Rightarrow> Inr (parsed_namespace convert p request_body)
      | v # vs \<Rightarrow> Inl (HTTPException 400 (if bundle_errors p then v # vs else [v])))"

text \<open>
  Modelled from the spec: the types of the table of section 4.1 (\<^emph>\<open>index: string,
  page_index: integer, query_term: string, search_request: structured mapping\<close>) as an
  instance of \<open>convert\<close>, to run the parser on a body: a value of the declared type is
  parsed to itself, any other value is of wrong type.
\<close>

fun declared_type :: "pytype \<Rightarrow> pyval \<Rightarrow> string + pyval" where
  "declared_type type_str (PStr s) = Inr (PStr s)"
| "declared_type type_int (PInt n) = Inr (PInt n)"
| "declared_type type_dict (PDict kvs) = Inr (PDict kvs)"
| "declared_type t v = Inl ''wrong type''"

section \<open>The paths of the base method\<close>

lemma base_post_parse_raises:
  "parser self True request = Inl e \<Longrightarrow> BaseFilterAPI_post self request = (Inl e, [])"
  by (simp add: BaseFilterAPI_post_def)

lemma base_post_search_request_None:
  "parser self True request = Inr args \<Longrightarrow> args_get args ''search_request'' = PNone \<Longrightarrow>
   BaseFilterAPI_post self request =
     (Inr (Dict [(''message'', ''The search request payload is not available in the request'')],
        BAD_REQUEST), [])"
  by (simp add: BaseFilterAPI_post_def)

lemma base_post_colon:
  "parser self True request = Inr args \<Longrightarrow> args_get args ''search_request'' \<noteq> PNone \<Longrightarrow>
   colon_in (args_get args ''query_term'') = Inr True \<Longrightarrow>
   BaseFilterAPI_post self request =
     (Inr (Dict [(''message'', ''The query term contains an invalid character'')],
        BAD_REQUEST), [])"
  by (simp add: BaseFilterAPI_post_def)

lemma base_post_membership_raises:
  "parser self True request = Inr args \<Longrightarrow> args_get args ''search_request'' \<noteq> PNone \<Longrightarrow>
   colon_in (args_get args ''query_term'') = Inl e \<Longrightarrow>
   BaseFilterAPI_post self request = (Inl e, [])"
  by (simp add: BaseFilterAPI_post_def)

lemma base_post_calls_proxy:
  "parser self True request = Inr args \<Longrightarrow> args_get args ''search_request'' \<noteq> PNone \<Longrightarrow>
   colon_in (args_get args ''query_term'') = Inr False \<Longrightarrow>
   args ''index'' = Some ix \<Longrightarrow>
   call = \<lparr>search_request = args_get args ''search_request'',
           query_term = args_get args ''query_term'',
           page_index = args_get args ''page_index'',
           index = ix\<rparr> \<Longrightarrow>
   BaseFilterAPI_post self request =
     (case proxy self call of
        Inl e \<Rightarrow> (Inl e, [call])
      | Inr results \<Rightarrow> (Inr (Sequence (map (schema self) results), OK), [call]))"
  by (simp add: BaseFilterAPI_post_def args_getitem_def Let_def split: sum.splits)

lemma base_post_BAD_REQUEST_no_call:
  "fst (BaseFilterAPI_post self request) = Inr (b, BAD_REQUEST) \<Longrightarrow>
   snd (BaseFilterAPI_post self request) = []"
  by (auto simp add: BaseFilterAPI_post_def Let_def split: sum.splits bool.splits if_splits)

lemma base_post_calls_are_parsed:
  "parser self True request = Inr args \<Longrightarrow> c \<in> set (snd (BaseFilterAPI_post self request)) \<Longrightarrow>
   page_index c = args_get args ''page_index'' \<and> args ''index'' = Some (index c)"
  by (auto simp add: BaseFilterAPI_post_def Let_def args_getitem_def
      split: sum.splits bool.splits if_splits option.splits)

lemma table_post_calls:
  "snd (SearchTableFilterAPI_post self request) = snd (BaseFilterAPI_post self request)"
  by (simp add: SearchTableFilterAPI_post_def split: prod.splits sum.splits)

lemma dashboard_post_calls:
  "snd (SearchDashboardFilterAPI_post self request) = snd (BaseFilterAPI_post self request)"
  by (simp add: SearchDashboardFilterAPI_post_def split: prod.splits sum.splits)

lemma table_post_returned:
  "BaseFilterAPI_post self request = (Inr returned, calls) \<Longrightarrow>
   SearchTableFilterAPI_post self request = (Inr returned, calls)"
  by (simp add: SearchTableFilterAPI_post_def)

lemma dashboard_post_returned:
  "BaseFilterAPI_post self request = (Inr returned, calls) \<Longrightarrow>
   SearchDashboardFilterAPI_post self request = (Inr returned, calls)"
  by (simp add: SearchDashboardFilterAPI_post_def)

lemma table_post_raised:
  "BaseFilterAPI_post self request = (Inl e, calls) \<Longrightarrow>
   SearchTableFilterAPI_post self request =
     (if isinstance_RuntimeError e then
        (Inr (Dict [(''message'', ''Exception encountered while processing search request'')],
           INTERNAL_SERVER_ERROR), calls)
      else (Inl e, calls))"
  by (simp add: SearchTableFilterAPI_post_def)

lemma dashboard_post_raised:
  "BaseFilterAPI_post self request = (Inl e, calls) \<Longrightarrow>
   SearchDashboardFilterAPI_post self request =
     (if isinstance_RuntimeError e then
        (Inr (Dict [(''message'', ''Exception encountered while processing search request'')],
           INTERNAL_SERVER_ERROR), calls)
      else (Inl e, calls))"
  by (simp add: SearchDashboardFilterAPI_post_def)

lemma args_get_Some: "args k = Some v \<Longrightarrow> args_get args k = v"
  by (simp add: args_get_def)

section \<open>The claims\<close>

text \<open>
  C1. A request that parses to a namespace with the four fields, with \<open>search_request\<close>
  present and \<open>query_term\<close> a string without a colon, makes each resource call the proxy
  exactly once, with the parsed \<open>search_request\<close>, \<open>query_term\<close>, \<open>page_index\<close> and
  \<open>index\<close>; when the proxy returns a sequence of results (the empty one too), the response is
  200 with the schema applied to each result in turn.
\<close>

theorem valid_request_calls_proxy_once_and_returns_200:
  assumes "parser self True request = Inr args"
    and "args ''search_request'' = Some sr" and "sr \<noteq> PNone"
    and "args ''query_term'' = Some (PStr q)" and "CHR '':'' \<notin> set q"
    and "args ''index'' = Some ix"
    and "call = \<lparr>search_request = sr, query_term = PStr q,
                  page_index = args_get args ''page_index'', index = ix\<rparr>"
  shows "snd (SearchTableFilterAPI_post self request) = [call] \<and>
         snd (SearchDashboardFilterAPI_post self request) = [call] \<and>
         (\<forall>results. proxy self call = Inr results \<longrightarrow>
            SearchTableFilterAPI_post self request =
              (Inr (Sequence (map (schema self) results), OK), [call]) \<and>
            SearchDashboardFilterAPI_post self request =
              (Inr (Sequence (map (schema self) results), OK), [call]) \<and>
            status_value OK = 200)"
proof -
  have sr: "args_get args ''search_request'' = sr" and q: "args_get args ''query_term'' = PStr q"
    using assms(2,4) by (simp_all add: args_get_Some)
  have base: "BaseFilterAPI_post self request =
      (case proxy self call of
         Inl e \<Rightarrow> (Inl e, [call])
       | Inr results \<Rightarrow> (Inr (Sequence (map (schema self) results), OK), [call]))"
    using assms by (intro base_post_calls_proxy[where args = args and ix = ix]) (simp_all add: sr q)
  have calls: "snd (BaseFilterAPI_post self request) = [call]"
    by (simp add: base split: sum.splits)
  have ok: "BaseFilterAPI_post self request =
      (Inr (Sequence (map (schema self) results), OK), [call])"
    if "proxy self call = Inr results" for results
    using that by (simp add: base)
  show ?thesis
    using calls ok
    by (simp add: table_post_calls dashboard_post_calls table_post_returned
        dashboard_post_returned)
qed

theorem valid_request_calls_proxy_once_and_returns_200_witness:
  "(let self = \<lparr>proxy = (\<lambda>c. Inr [''t1'', ''t2'']), schema = rev,
                 parser = (\<lambda>strict request. Inr request)\<rparr>;
        request = [''search_request'' \<mapsto> PDict [(''resource'', PStr ''table'')],
                   ''query_term'' \<mapsto> PStr ''foo'', ''page_index'' \<mapsto> PInt 2,
                   ''index'' \<mapsto> PStr ''table_search_index''];
        call = \<lparr>search_request = PDict [(''resource'', PStr ''table'')],
                 query_term = PStr ''foo'', page_index = PInt 2,
                 index = PStr ''table_search_index''\<rparr>
    in SearchTableFilterAPI_post self request = (Inr (Sequence [''1t'', ''2t''], OK), [call]) \<and>
       SearchDashboardFilterAPI_post self request =
         (Inr (Sequence [''1t'', ''2t''], OK), [call]))"
  using valid_request_calls_proxy_once_and_returns_200
    [of "\<lparr>proxy = (\<lambda>c. Inr [''t1'', ''t2'']), schema = rev,
          parser = (\<lambda>strict request. Inr request)\<rparr>"
        "[''search_request'' \<mapsto> PDict [(''resource'', PStr ''table'')],
          ''query_term'' \<mapsto> PStr ''foo'', ''page_index'' \<mapsto> PInt 2,
          ''index'' \<mapsto> PStr ''table_search_index'']"
        "[''search_request'' \<mapsto> PDict [(''resource'', PStr ''table'')],
          ''query_term'' \<mapsto> PStr ''foo'', ''page_index'' \<mapsto> PInt 2,
          ''index'' \<mapsto> PStr ''table_search_index'']"
        "PDict [(''resource'', PStr ''table'')]" "''foo''" "PStr ''table_search_index''"
        "\<lparr>search_request = PDict [(''resource'', PStr ''table'')],
          query_term = PStr ''foo'', page_index = PInt 2,
          index = PStr ''table_search_index''\<rparr>"]
  by (simp add: args_get_def)

text \<open>
  C2, as amended. On a request that passes validation, a failure of the proxy call that is a
  \<open>RuntimeError\<close> (of that class or of a subclass) makes each resource respond 500 with the
  message \<^verbatim>\<open>Exception encountered while processing search request\<close>, which holds nothing
  of the error; a failure of any other class is not caught and leaves the resource as raised.
\<close>

theorem proxy_RuntimeError_gives_500_other_failures_propagate:
  assumes "parser self True request = Inr args"
    and "args ''search_request'' = Some sr" and "sr \<noteq> PNone"
    and "args ''query_term'' = Some (PStr q)" and "CHR '':'' \<notin> set q"
    and "args ''index'' = Some ix"
    and "call = \<lparr>search_request = sr, query_term = PStr q,
                  page_index = args_get args ''page_index'', index = ix\<rparr>"
    and "proxy self call = Inl e"
  shows "(isinstance_RuntimeError e \<longrightarrow>
            SearchTableFilterAPI_post self request =
              (Inr (Dict [(''message'',
                  ''Exception encountered while processing search request'')],
                 INTERNAL_SERVER_ERROR), [call]) \<and>
            SearchDashboardFilterAPI_post self request =
              (Inr (Dict [(''message'',
                  ''Exception encountered while processing search request'')],
                 INTERNAL_SERVER_ERROR), [call]) \<and>
            status_value INTERNAL_SERVER_ERROR = 500) \<and>
         (\<not> isinstance_RuntimeError e \<longrightarrow>
            SearchTableFilterAPI_post self request = (Inl e, [call]) \<and>
            SearchDashboardFilterAPI_post self request = (Inl e, [call]))"
proof -
  have sr: "args_get args ''search_request'' = sr" and q: "args_get args ''query_term'' = PStr q"
    using assms(2,4) by (simp_all add: args_get_Some)
  have "BaseFilterAPI_post self request =
      (case proxy self call of
         Inl e \<Rightarrow> (Inl e, [call])
       | Inr results \<Rightarrow> (Inr (Sequence (map (schema self) results), OK), [call]))"
    using assms by (intro base_post_calls_proxy[where args = args and ix = ix]) (simp_all add: sr q)
  then have base: "BaseFilterAPI_post self request = (Inl e, [call])"
    using assms(8) by simp
  show ?thesis
    by (simp add: table_post_raised[OF base] dashboard_post_raised[OF base])
qed

theorem proxy_RuntimeError_gives_500_other_failures_propagate_witness:
  "(let self = \<lparr>proxy = (\<lambda>c. Inl (PyError [''RuntimeError'', ''Exception'',
                    ''BaseException'', ''object''] ''backend down'')) ::
                    proxy_call \<Rightarrow> exception + string list,
                 schema = rev, parser = (\<lambda>strict request. Inr request)\<rparr>;
        request = [''search_request'' \<mapsto> PDict [(''resource'', PStr ''table'')],
                   ''query_term'' \<mapsto> PStr ''foo'', ''page_index'' \<mapsto> PInt 2,
                   ''index'' \<mapsto> PStr ''table_search_index''];
        call = \<lparr>search_request = PDict [(''resource'', PStr ''table'')],
                 query_term = PStr ''foo'', page_index = PInt 2,
                 index = PStr ''table_search_index''\<rparr>
    in SearchTableFilterAPI_post self request =
         (Inr (Dict [(''message'', ''Exception encountered while processing search request'')],
            INTERNAL_SERVER_ERROR), [call]) \<and>
       SearchDashboardFilterAPI_post self request =
         (Inr (Dict [(''message'', ''Exception encountered while processing search request'')],
            INTERNAL_SERVER_ERROR), [call]))"
  using proxy_RuntimeError_gives_500_other_failures_propagate
    [where self = "\<lparr>proxy = (\<lambda>c. Inl (PyError [''RuntimeError'', ''Exception'',
                    ''BaseException'', ''object''] ''backend down'')) ::
                    proxy_call \<Rightarrow> exception + string list,
                 schema = rev, parser = (\<lambda>strict request. Inr request)\<rparr>"
       and request = "[''search_request'' \<mapsto> PDict [(''resource'', PStr ''table'')],
                   ''query_term'' \<mapsto> PStr ''foo'', ''page_index'' \<mapsto> PInt 2,
                   ''index'' \<mapsto> PStr ''table_search_index'']"
       and args = "[''search_request'' \<mapsto> PDict [(''resource'', PStr ''table'')],
                   ''query_term'' \<mapsto> PStr ''foo'', ''page_index'' \<mapsto> PInt 2,
                   ''index'' \<mapsto> PStr ''table_search_index'']"
       and sr = "PDict [(''resource'', PStr ''table'')]" and q = "''foo''"
       and ix = "PStr ''table_search_index''"
       and call = "\<lparr>search_request = PDict [(''resource'', PStr ''table'')],
                 query_term = PStr ''foo'', page_index = PInt 2,
                 index = PStr ''table_search_index''\<rparr>"
       and e = "PyError [''RuntimeError'', ''Exception'',
                    ''BaseException'', ''object''] ''backend down''"]
  by (simp add: args_get_def)

text \<open>
  C2 as stated fails: a proxy that raises \<open>ConnectionError\<close>, which is not a
  \<open>RuntimeError\<close>, gets no 500 response; the exception leaves both resources.
\<close>

theorem proxy_failure_not_RuntimeError_counterexample:
  "SearchTableFilterAPI_post
       \<lparr>proxy = (\<lambda>c. Inl (PyError [''ConnectionError'', ''OSError'', ''Exception'',
                  ''BaseException'', ''object''] ''Connection refused'')) ::
                  proxy_call \<Rightarrow> exception + string list,
         schema = rev, parser = (\<lambda>strict request. Inr request)\<rparr>
       [''search_request'' \<mapsto> PDict [(''resource'', PStr ''table'')],
        ''query_term'' \<mapsto> PStr ''foo'', ''page_index'' \<mapsto> PInt 2,
        ''index'' \<mapsto> PStr ''table_search_index''] =
     (Inl (PyError [''ConnectionError'', ''OSError'', ''Exception'',
             ''BaseException'', ''object''] ''Connection refused''),
      [\<lparr>search_request = PDict [(''resource'', PStr ''table'')],
         query_term = PStr ''foo'', page_index = PInt 2,
         index = PStr ''table_search_index''\<rparr>]) \<and>
   SearchDashboardFilterAPI_post
       \<lparr>proxy = (\<lambda>c. Inl (PyError [''ConnectionError'', ''OSError'', ''Exception'',
                  ''BaseException'', ''object''] ''Connection refused'')) ::
                  proxy_call \<Rightarrow> exception + string list,
         schema = rev, parser = (\<lambda>strict request. Inr request)\<rparr>
       [''search_request'' \<mapsto> PDict [(''resource'', PStr ''table'')],
        ''query_term'' \<mapsto> PStr ''foo'', ''page_index'' \<mapsto> PInt 2,
        ''index'' \<mapsto> PStr ''table_search_index''] =
     (Inl (PyError [''ConnectionError'', ''OSError'', ''Exception'',
             ''BaseException'', ''object''] ''Connection refused''),
      [\<lparr>search_request = PDict [(''resource'', PStr ''table'')],
         query_term = PStr ''foo'', page_index = PInt 2,
         index = PStr ''table_search_index''\<rparr>])"
  by (simp add: SearchTableFilterAPI_post_def SearchDashboardFilterAPI_post_def
      BaseFilterAPI_post_def args_get_def args_getitem_def)

text \<open>
  C3. A request whose \<open>query_term\<close> is a string with a colon anywhere in it, and whose
  \<open>search_request\<close> is present, gets 400 with the message
  \<^verbatim>\<open>The query term contains an invalid character\<close> from each resource, and the proxy is not
  called.
\<close>

theorem colon_in_query_term_gives_400:
  assumes "parser self True request = Inr args"
    and "args ''search_request'' = Some sr" and "sr \<noteq> PNone"
    and "args ''query_term'' = Some (PStr (before @ CHR '':'' # after))"
  shows "SearchTableFilterAPI_post self request =
           (Inr (Dict [(''message'', ''The query term contains an invalid character'')],
              BAD_REQUEST), []) \<and>
         SearchDashboardFilterAPI_post self request =
           (Inr (Dict [(''message'', ''The query term contains an invalid character'')],
              BAD_REQUEST), []) \<and>
         status_value BAD_REQUEST = 400"
proof -
  have "args_get args ''search_request'' \<noteq> PNone"
    using assms(2,3) by (simp add: args_get_Some)
  moreover have "colon_in (args_get args ''query_term'') = Inr True"
    using assms(4) by (simp add: args_get_Some)
  ultimately have "BaseFilterAPI_post self request =
      (Inr (Dict [(''message'', ''The query term contains an invalid character'')],
         BAD_REQUEST), [])"
    using assms(1) by (rule base_post_colon[rotated])
  then show ?thesis
    by (simp add: table_post_returned dashboard_post_returned)
qed

theorem colon_in_query_term_gives_400_witness:
  "(let self = \<lparr>proxy = (\<lambda>c. Inr [''t1'', ''t2'']), schema = rev,
                 parser = (\<lambda>strict request. Inr request)\<rparr>;
        request = [''search_request'' \<mapsto> PDict [], ''query_term'' \<mapsto> PStr ''a:b'',
                   ''page_index'' \<mapsto> PInt 0, ''index'' \<mapsto> PStr ''table_search_index'']
    in SearchTableFilterAPI_post self request =
         (Inr (Dict [(''message'', ''The query term contains an invalid character'')],
            BAD_REQUEST), []) \<and>
       SearchDashboardFilterAPI_post self request =
         (Inr (Dict [(''message'', ''The query term contains an invalid character'')],
            BAD_REQUEST), []))"
  using colon_in_query_term_gives_400
    [where self = "\<lparr>proxy = (\<lambda>c. Inr [''t1'', ''t2'']), schema = rev,
                 parser = (\<lambda>strict request. Inr request)\<rparr>"
       and request = "[''search_request'' \<mapsto> PDict [], ''query_term'' \<mapsto> PStr ''a:b'',
                   ''page_index'' \<mapsto> PInt 0, ''index'' \<mapsto> PStr ''table_search_index'']"
       and args = "[''search_request'' \<mapsto> PDict [], ''query_term'' \<mapsto> PStr ''a:b'',
                   ''page_index'' \<mapsto> PInt 0, ''index'' \<mapsto> PStr ''table_search_index'']"
       and sr = "PDict []" and before = "''a''" and after = "''b''"]
  by simp

text \<open>
  C4. A request whose \<open>search_request\<close> is absent (it parses to \<open>None\<close>) gets 400 with the
  message \<^verbatim>\<open>The search request payload is not available in the request\<close> from each
  resource, and the proxy is not called.
\<close>

theorem absent_search_request_gives_400:
  assumes "parser self True request = Inr args"
    and "args_get args ''search_request'' = PNone"
  shows "SearchTableFilterAPI_post self request =
           (Inr (Dict [(''message'',
               ''The search request payload is not available in the request'')],
              BAD_REQUEST), []) \<and>
         SearchDashboardFilterAPI_post self request =
           (Inr (Dict [(''message'',
               ''The search request payload is not available in the request'')],
              BAD_REQUEST), []) \<and>
         status_value BAD_REQUEST = 400"
  using base_post_search_request_None[OF assms]
  by (simp add: table_post_returned dashboard_post_returned)

theorem absent_search_request_gives_400_witness:
  "(let self = \<lparr>proxy = (\<lambda>c. Inr [''t1'', ''t2'']), schema = rev,
                 parser = (\<lambda>strict request. Inr request)\<rparr>;
        request = [''search_request'' \<mapsto> PNone, ''query_term'' \<mapsto> PStr ''foo'',
                   ''page_index'' \<mapsto> PInt 0, ''index'' \<mapsto> PStr ''table_search_index'']
    in SearchTableFilterAPI_post self request =
         (Inr (Dict [(''message'',
             ''The search request payload is not available in the request'')],
            BAD_REQUEST), []) \<and>
       SearchDashboardFilterAPI_post self request =
         (Inr (Dict [(''message'',
             ''The search request payload is not available in the request'')],
            BAD_REQUEST), []))"
  using absent_search_request_gives_400
    [where self = "\<lparr>proxy = (\<lambda>c. Inr [''t1'', ''t2'']), schema = rev,
                 parser = (\<lambda>strict request. Inr request)\<rparr>"
       and request = "[''search_request'' \<mapsto> PNone, ''query_term'' \<mapsto> PStr ''foo'',
                   ''page_index'' \<mapsto> PInt 0, ''index'' \<mapsto> PStr ''table_search_index'']"
       and args = "[''search_request'' \<mapsto> PNone, ''query_term'' \<mapsto> PStr ''foo'',
                   ''page_index'' \<mapsto> PInt 0, ''index'' \<mapsto> PStr ''table_search_index'']"]
  by (simp add: args_get_def)

text \<open>
  C7. The check of \<open>search_request\<close> comes first: with \<open>search_request\<close> absent the response
  of each resource is the 400 of the missing payload whatever \<open>query_term\<close> is, also when it
  is a string with a colon, and not the 400 of the query term; and a resource that answers
  400 has not called the proxy.
\<close>

theorem search_request_check_precedes_query_term_check:
  fixes self self' :: "('req, 'r, 'j) BaseFilterAPI"
  assumes "parser self True request = Inr args"
    and "args_get args ''search_request'' = PNone"
  shows "SearchTableFilterAPI_post self request =
           (Inr (Dict [(''message'',
               ''The search request payload is not available in the request'')],
              BAD_REQUEST), []) \<and>
         SearchDashboardFilterAPI_post self request =
           (Inr (Dict [(''message'',
               ''The search request payload is not available in the request'')],
              BAD_REQUEST), []) \<and>
         fst (SearchTableFilterAPI_post self request) \<noteq>
           Inr (Dict [(''message'', ''The query term contains an invalid character'')],
              BAD_REQUEST) \<and>
         fst (SearchDashboardFilterAPI_post self request) \<noteq>
           Inr (Dict [(''message'', ''The query term contains an invalid character'')],
              BAD_REQUEST) \<and>
         (fst (SearchTableFilterAPI_post self' request') = Inr (b, BAD_REQUEST) \<longrightarrow>
            snd (SearchTableFilterAPI_post self' request') = []) \<and>
         (fst (SearchDashboardFilterAPI_post self' request') = Inr (b, BAD_REQUEST) \<longrightarrow>
            snd (SearchDashboardFilterAPI_post self' request') = [])"
proof -
  have base: "BaseFilterAPI_post self request =
      (Inr (Dict [(''message'', ''The search request payload is not available in the request'')],
         BAD_REQUEST), [])"
    using assms(1,2) by (rule base_post_search_request_None)
  have t: "snd (SearchTableFilterAPI_post self' request') = []"
    if "fst (SearchTableFilterAPI_post self' request') = Inr (b, BAD_REQUEST)"
  proof (cases "BaseFilterAPI_post self' request'")
    case (Pair r calls)
    show ?thesis
    proof (cases r)
      case (Inl e)
      with Pair that have "snd (BaseFilterAPI_post self' request') = []"
        by (simp add: table_post_raised split: if_splits)
      then show ?thesis by (simp add: table_post_calls)
    next
      case (Inr returned)
      with Pair that have "fst (BaseFilterAPI_post self' request') = Inr (b, BAD_REQUEST)"
        by (simp add: table_post_returned)
      then show ?thesis
        by (simp add: table_post_calls base_post_BAD_REQUEST_no_call)
    qed
  qed
  have d: "snd (SearchDashboardFilterAPI_post self' request') = []"
    if "fst (SearchDashboardFilterAPI_post self' request') = Inr (b, BAD_REQUEST)"
  proof (cases "BaseFilterAPI_post self' request'")
    case (Pair r calls)
    show ?thesis
    proof (cases r)
      case (Inl e)
      with Pair that have "snd (BaseFilterAPI_post self' request') = []"
        by (simp add: dashboard_post_raised split: if_splits)
      then show ?thesis by (simp add: dashboard_post_calls)
    next
      case (Inr returned)
      with Pair that have "fst (BaseFilterAPI_post self' request') = Inr (b, BAD_REQUEST)"
        by (simp add: dashboard_post_returned)
      then show ?thesis
        by (simp add: dashboard_post_calls base_post_BAD_REQUEST_no_call)
    qed
  qed
  show ?thesis
    using t d by (simp add: table_post_returned[OF base] dashboard_post_returned[OF base])
qed

theorem search_request_check_precedes_query_term_check_witness:
  "(let self = \<lparr>proxy = (\<lambda>c. Inr [''t1'', ''t2'']), schema = rev,
                 parser = (\<lambda>strict request. Inr request)\<rparr>;
        request = [''search_request'' \<mapsto> PNone, ''query_term'' \<mapsto> PStr ''a:b'',
                   ''page_index'' \<mapsto> PInt 0, ''index'' \<mapsto> PStr ''table_search_index''];
        request' = [''search_request'' \<mapsto> PDict [], ''query_term'' \<mapsto> PStr ''a:b'',
                   ''page_index'' \<mapsto> PInt 0, ''index'' \<mapsto> PStr ''table_search_index'']
    in SearchTableFilterAPI_post self request =
         (Inr (Dict [(''message'',
             ''The search request payload is not available in the request'')],
            BAD_REQUEST), []) \<and>
       SearchDashboardFilterAPI_post self request =
         (Inr (Dict [(''message'',
             ''The search request payload is not available in the request'')],
            BAD_REQUEST), []) \<and>
       fst (SearchTableFilterAPI_post self request') =
         Inr (Dict [(''message'', ''The query term contains an invalid character'')],
            BAD_REQUEST) \<and>
       snd (SearchTableFilterAPI_post self request') = [] \<and>
       snd (SearchDashboardFilterAPI_post self request') = [])"
proof -
  let ?self = "\<lparr>proxy = (\<lambda>c. Inr [''t1'', ''t2'']) :: proxy_call \<Rightarrow> exception + string list,
                 schema = rev, parser = (\<lambda>strict request. Inr request)\<rparr>"
  let ?request = "[''search_request'' \<mapsto> PNone, ''query_term'' \<mapsto> PStr ''a:b'',
                   ''page_index'' \<mapsto> PInt 0, ''index'' \<mapsto> PStr ''table_search_index'']"
  let ?request' = "[''search_request'' \<mapsto> PDict [], ''query_term'' \<mapsto> PStr ''a:b'',
                   ''page_index'' \<mapsto> PInt 0, ''index'' \<mapsto> PStr ''table_search_index'']"
  have q: "fst (SearchTableFilterAPI_post ?self ?request') =
         Inr (Dict [(''message'', ''The query term contains an invalid character'')],
            BAD_REQUEST)"
    and q': "fst (SearchDashboardFilterAPI_post ?self ?request') =
         Inr (Dict [(''message'', ''The query term contains an invalid character'')],
            BAD_REQUEST)"
    by (simp_all add: SearchTableFilterAPI_post_def SearchDashboardFilterAPI_post_def
        BaseFilterAPI_post_def args_get_def)
  have "parser ?self True ?request = Inr ?request"
    and "args_get ?request ''search_request'' = PNone"
    by (simp_all add: args_get_def)
  from search_request_check_precedes_query_term_check
    [OF this, where self' = ?self and request' = ?request'
       and b = "Dict [(''message'', ''The query term contains an invalid character'')]"]
  show ?thesis
    using q q' by (simp add: Let_def)
qed

text \<open>
  C9. A request whose \<open>search_request\<close> is present and whose \<open>query_term\<close> is absent (it
  parses to \<open>None\<close>) makes the membership test of line 49 raise \<open>TypeError\<close>, which is not a
  \<open>RuntimeError\<close>: the exception leaves each resource, which returns no response, and the
  proxy is not called.
\<close>

theorem absent_query_term_raises_TypeError:
  assumes "parser self True request = Inr args"
    and "args_get args ''search_request'' \<noteq> PNone"
    and "args_get args ''query_term'' = PNone"
  shows "SearchTableFilterAPI_post self request =
           (Inl (TypeError ''argument of type 'NoneType' is not iterable''), []) \<and>
         SearchDashboardFilterAPI_post self request =
           (Inl (TypeError ''argument of type 'NoneType' is not iterable''), []) \<and>
         \<not> isinstance_RuntimeError (TypeError ''argument of type 'NoneType' is not iterable'')"
proof -
  have "colon_in (args_get args ''query_term'') =
      Inl (TypeError ''argument of type 'NoneType' is not iterable'')"
    using assms(3) by simp
  with assms(1,2) have base: "BaseFilterAPI_post self request =
      (Inl (TypeError ''argument of type 'NoneType' is not iterable''), [])"
    by (rule base_post_membership_raises)
  have no: "\<not> isinstance_RuntimeError (TypeError ''argument of type 'NoneType' is not iterable'')"
    by (simp add: TypeError_def)
  show ?thesis
    using no by (simp add: table_post_raised[OF base] dashboard_post_raised[OF base])
qed

theorem absent_query_term_raises_TypeError_witness:
  "(let self = \<lparr>proxy = (\<lambda>c. Inr [''t1'', ''t2'']), schema = rev,
                 parser = (\<lambda>strict request. Inr request)\<rparr>;
        request = [''search_request'' \<mapsto> PDict [(''resource'', PStr ''table'')],
                   ''query_term'' \<mapsto> PNone,
                   ''page_index'' \<mapsto> PInt 0, ''index'' \<mapsto> PStr ''table_search_index'']
    in SearchTableFilterAPI_post self request =
         (Inl (PyError [''TypeError'', ''Exception'', ''BaseException'', ''object'']
            ''argument of type 'NoneType' is not iterable''), []) \<and>
       SearchDashboardFilterAPI_post self request =
         (Inl (PyError [''TypeError'', ''Exception'', ''BaseException'', ''object'']
            ''argument of type 'NoneType' is not iterable''), []))"
  using absent_query_term_raises_TypeError
    [where self = "\<lparr>proxy = (\<lambda>c. Inr [''t1'', ''t2'']), schema = rev,
                 parser = (\<lambda>strict request. Inr request)\<rparr>"
       and request = "[''search_request'' \<mapsto> PDict [(''resource'', PStr ''table'')],
                   ''query_term'' \<mapsto> PNone,
                   ''page_index'' \<mapsto> PInt 0, ''index'' \<mapsto> PStr ''table_search_index'']"
       and args = "[''search_request'' \<mapsto> PDict [(''resource'', PStr ''table'')],
                   ''query_term'' \<mapsto> PNone,
                   ''page_index'' \<mapsto> PInt 0, ''index'' \<mapsto> PStr ''table_search_index'']"]
  by (simp add: args_get_def TypeError_def)

text \<open>
  C10. \<open>page_index\<close> has no lower bound: on a request with a negative integer
  \<open>page_index\<close>, \<open>search_request\<close> present and \<open>query_term\<close> a string without a colon, each
  resource calls the proxy once with that negative value unchanged and does not answer 400;
  when the proxy returns results the response is 200.
\<close>

theorem negative_page_index_reaches_proxy:
  assumes "parser self True request = Inr args"
    and "args ''page_index'' = Some (PInt n)" and "n < 0"
    and "args ''search_request'' = Some sr" and "sr \<noteq> PNone"
    and "args ''query_term'' = Some (PStr q)" and "CHR '':'' \<notin> set q"
    and "args ''index'' = Some ix"
    and "call = \<lparr>search_request = sr, query_term = PStr q, page_index = PInt n, index = ix\<rparr>"
  shows "snd (SearchTableFilterAPI_post self request) = [call] \<and>
         snd (SearchDashboardFilterAPI_post self request) = [call] \<and>
         page_index call = PInt n \<and>
         fst (SearchTableFilterAPI_post self request) \<noteq> Inr (b, BAD_REQUEST) \<and>
         fst (SearchDashboardFilterAPI_post self request) \<noteq> Inr (b, BAD_REQUEST) \<and>
         (\<forall>results. proxy self call = Inr results \<longrightarrow>
            SearchTableFilterAPI_post self request =
              (Inr (Sequence (map (schema self) results), OK), [call]) \<and>
            SearchDashboardFilterAPI_post self request =
              (Inr (Sequence (map (schema self) results), OK), [call]))"
proof -
  have sr: "args_get args ''search_request'' = sr" and q: "args_get args ''query_term'' = PStr q"
    and n: "args_get args ''page_index'' = PInt n"
    using assms(2,4,6) by (simp_all add: args_get_Some)
  have base: "BaseFilterAPI_post self request =
      (case proxy self call of
         Inl e \<Rightarrow> (Inl e, [call])
       | Inr results \<Rightarrow> (Inr (Sequence (map (schema self) results), OK), [call]))"
    using assms by (intro base_post_calls_proxy[where args = args and ix = ix]) (simp_all add: sr q n)
  have calls: "snd (BaseFilterAPI_post self request) = [call]"
    by (simp add: base split: sum.splits)
  have t: "fst (SearchTableFilterAPI_post self request) \<noteq> Inr (b, BAD_REQUEST)"
    by (cases "proxy self call")
      (simp_all add: base SearchTableFilterAPI_post_def)
  have d: "fst (SearchDashboardFilterAPI_post self request) \<noteq> Inr (b, BAD_REQUEST)"
    by (cases "proxy self call")
      (simp_all add: base SearchDashboardFilterAPI_post_def)
  have ok: "BaseFilterAPI_post self request =
      (Inr (Sequence (map (schema self) results), OK), [call])"
    if "proxy self call = Inr results" for results
    using that by (simp add: base)
  show ?thesis
    using calls ok t d assms(9)
    by (simp add: table_post_calls dashboard_post_calls table_post_returned
        dashboard_post_returned)
qed

theorem negative_page_index_reaches_proxy_witness:
  "(let self = \<lparr>proxy = (\<lambda>c. Inr [''t1'', ''t2'']), schema = rev,
                 parser = (\<lambda>strict request. Inr request)\<rparr>;
        request = [''search_request'' \<mapsto> PDict [(''resource'', PStr ''table'')],
                   ''query_term'' \<mapsto> PStr ''foo'', ''page_index'' \<mapsto> PInt (- 3),
                   ''index'' \<mapsto> PStr ''table_search_index''];
        call = \<lparr>search_request = PDict [(''resource'', PStr ''table'')],
                 query_term = PStr ''foo'', page_index = PInt (- 3),
                 index = PStr ''table_search_index''\<rparr>
    in SearchTableFilterAPI_post self request = (Inr (Sequence [''1t'', ''2t''], OK), [call]) \<and>
       SearchDashboardFilterAPI_post self request =
         (Inr (Sequence [''1t'', ''2t''], OK), [call]))"
  using negative_page_index_reaches_proxy
    [where self = "\<lparr>proxy = (\<lambda>c. Inr [''t1'', ''t2'']), schema = rev,
                 parser = (\<lambda>strict request. Inr request)\<rparr>"
       and request = "[''search_request'' \<mapsto> PDict [(''resource'', PStr ''table'')],
                   ''query_term'' \<mapsto> PStr ''foo'', ''page_index'' \<mapsto> PInt (- 3),
                   ''index'' \<mapsto> PStr ''table_search_index'']"
       and args = "[''search_request'' \<mapsto> PDict [(''resource'', PStr ''table'')],
                   ''query_term'' \<mapsto> PStr ''foo'', ''page_index'' \<mapsto> PInt (- 3),
                   ''index'' \<mapsto> PStr ''table_search_index'']"
       and n = "- 3" and sr = "PDict [(''resource'', PStr ''table'')]" and q = "''foo''"
       and ix = "PStr ''table_search_index''"
       and call = "\<lparr>search_request = PDict [(''resource'', PStr ''table'')],
                 query_term = PStr ''foo'', page_index = PInt (- 3),
                 index = PStr ''table_search_index''\<rparr>"]
  by simp

section \<open>The schema and the parser in the resources\<close>

lemma base_post_schema:
  "BaseFilterAPI_post \<lparr>proxy = px, schema = s, parser = ps\<rparr> request =
     (map_sum id (map_prod (map_body s) id)
        (fst (BaseFilterAPI_post \<lparr>proxy = px, schema = id, parser = ps\<rparr> request)),
      snd (BaseFilterAPI_post \<lparr>proxy = px, schema = id, parser = ps\<rparr> request))"
  by (simp add: BaseFilterAPI_post_def Let_def split: sum.splits bool.splits)

lemma table_post_schema:
  "SearchTableFilterAPI_post \<lparr>proxy = px, schema = s, parser = ps\<rparr> request =
     (map_sum id (map_prod (map_body s) id)
        (fst (SearchTableFilterAPI_post \<lparr>proxy = px, schema = id, parser = ps\<rparr> request)),
      snd (SearchTableFilterAPI_post \<lparr>proxy = px, schema = id, parser = ps\<rparr> request))"
proof (cases "BaseFilterAPI_post \<lparr>proxy = px, schema = id, parser = ps\<rparr> request")
  case (Pair r calls)
  then show ?thesis
    by (cases r)
      (simp_all add: SearchTableFilterAPI_post_def base_post_schema[of px s ps request])
qed

lemma dashboard_post_eq_table_post:
  "SearchDashboardFilterAPI_post self request = SearchTableFilterAPI_post self request"
  by (simp add: SearchDashboardFilterAPI_post_def SearchTableFilterAPI_post_def)

lemma dashboard_init_eq_table_init:
  "SearchDashboardFilterAPI_init reqparse px TI s = SearchTableFilterAPI_init reqparse px TI s"
  by (simp add: SearchDashboardFilterAPI_init_def SearchTableFilterAPI_init_def)

lemma table_post_init_schema:
  "SearchTableFilterAPI_post (SearchTableFilterAPI_init reqparse px TI s) request =
     (map_sum id (map_prod (map_body s) id)
        (fst (SearchTableFilterAPI_post (SearchTableFilterAPI_init reqparse px TI id) request)),
      snd (SearchTableFilterAPI_post (SearchTableFilterAPI_init reqparse px TI id) request))"
  unfolding SearchTableFilterAPI_init_def BaseFilterAPI_init_def
  by (rule table_post_schema)

lemma dashboard_post_init_schema:
  "SearchDashboardFilterAPI_post (SearchDashboardFilterAPI_init reqparse px TI s) request =
     (map_sum id (map_prod (map_body s) id)
        (fst (SearchTableFilterAPI_post (SearchTableFilterAPI_init reqparse px TI id) request)),
      snd (SearchTableFilterAPI_post (SearchTableFilterAPI_init reqparse px TI id) request))"
  by (simp only: dashboard_post_eq_table_post dashboard_init_eq_table_init
      table_post_init_schema[of reqparse px TI s request])

lemma serialized_raised:
  "(map_sum id (map_prod (map_body s) id) r = Inl e) = (r = Inl e)"
  by (cases r) simp_all

lemma serialized_message:
  "(map_sum id (map_prod (map_body s) id) r = Inr (Dict message, status)) =
   (r = Inr (Dict message, status))"
proof (cases r)
  case (Inl x)
  then show ?thesis by simp
next
  case (Inr y)
  obtain b st where y: "y = (b, st)" by (cases y)
  show ?thesis using Inr y by (cases b) auto
qed


text \<open>
  C8. On every request the table resource and the dashboard resource, built on the same
  parser, proxy client and index constant, have one outcome over the proxy's results (the
  exception raised, or the status with the message or the results) and the same proxy
  calls; each response is that outcome with the resource's own schema applied to the
  results. So the exceptions, the statuses and the messages of the two coincide, and with
  one schema bound to both the two resources are equal.
\<close>

theorem table_and_dashboard_differ_only_in_schema:
  "(\<exists>outcome calls.
      SearchTableFilterAPI_post
          (SearchTableFilterAPI_init reqparse px TI SearchTableResultSchema) request =
        (map_sum id (map_prod (map_body SearchTableResultSchema) id) outcome, calls) \<and>
      SearchDashboardFilterAPI_post
          (SearchDashboardFilterAPI_init reqparse px TI SearchDashboardResultSchema) request =
        (map_sum id (map_prod (map_body SearchDashboardResultSchema) id) outcome, calls)) \<and>
   (fst (SearchTableFilterAPI_post
          (SearchTableFilterAPI_init reqparse px TI SearchTableResultSchema) request) = Inl e) =
   (fst (SearchDashboardFilterAPI_post
          (SearchDashboardFilterAPI_init reqparse px TI SearchDashboardResultSchema) request) = Inl e) \<and>
   (fst (SearchTableFilterAPI_post
          (SearchTableFilterAPI_init reqparse px TI SearchTableResultSchema) request) =
      Inr (Dict message, status)) =
   (fst (SearchDashboardFilterAPI_post
          (SearchDashboardFilterAPI_init reqparse px TI SearchDashboardResultSchema) request) =
      Inr (Dict message, status)) \<and>
   SearchTableFilterAPI_post (SearchTableFilterAPI_init reqparse px TI schema') request =
   SearchDashboardFilterAPI_post (SearchDashboardFilterAPI_init reqparse px TI schema') request"
proof -
  have "\<exists>outcome calls.
      SearchTableFilterAPI_post
          (SearchTableFilterAPI_init reqparse px TI SearchTableResultSchema) request =
        (map_sum id (map_prod (map_body SearchTableResultSchema) id) outcome, calls) \<and>
      SearchDashboardFilterAPI_post
          (SearchDashboardFilterAPI_init reqparse px TI SearchDashboardResultSchema) request =
        (map_sum id (map_prod (map_body SearchDashboardResultSchema) id) outcome, calls)"
    using table_post_init_schema[of reqparse px TI SearchTableResultSchema request]
      dashboard_post_init_schema[of reqparse px TI SearchDashboardResultSchema request]
    by blast
  moreover have "SearchTableFilterAPI_post (SearchTableFilterAPI_init reqparse px TI schema') request =
      SearchDashboardFilterAPI_post (SearchDashboardFilterAPI_init reqparse px TI schema') request"
    by (simp only: dashboard_post_eq_table_post dashboard_init_eq_table_init)
  ultimately show ?thesis
    by (simp add: table_post_init_schema[of reqparse px TI SearchTableResultSchema request]
        dashboard_post_init_schema[of reqparse px TI SearchDashboardResultSchema request]
        serialized_raised serialized_message)
qed

section \<open>The configured parser on a request body\<close>

lemma parse_args_violations:
  "wrong_fields convert p request_body @
     (if strict then unrecognized_fields p request_body else []) = v # vs \<Longrightarrow>
   bundle_errors p \<Longrightarrow>
   RequestParser_parse_args convert p strict request_body = Inl (HTTPException 400 (v # vs))"
  by (simp add: RequestParser_parse_args_def)

lemma parse_args_returns:
  "RequestParser_parse_args convert p strict request_body = Inr args \<Longrightarrow>
   args = parsed_namespace convert p request_body \<and> wrong_fields convert p request_body = []"
  by (auto simp add: RequestParser_parse_args_def split: list.splits)

lemma unrecognized_fields_member:
  "(k, v) \<in> set request_body \<Longrightarrow> k \<notin> set (map arg_name (arguments p)) \<Longrightarrow>
   (k, ''unrecognized field'') \<in> set (unrecognized_fields p request_body)"
  by (force simp add: unrecognized_fields_def)

lemma wrong_fields_member:
  "a \<in> set (arguments p) \<Longrightarrow> parse_argument convert a request_body = Inl m \<Longrightarrow>
   (arg_name a, m) \<in> set (wrong_fields convert p request_body)"
  by (force simp add: wrong_fields_def)

lemma parse_argument_present:
  "map_of request_body (arg_name a) = Some w \<Longrightarrow>
   parse_argument convert a request_body = convert (arg_type a) w"
  by (simp add: parse_argument_def)

lemma wrong_fields_reported:
  "\<lparr>arg_name = name, arg_required = r, arg_default = dflt, arg_type = t\<rparr> \<in> set (arguments p) \<Longrightarrow>
   map_of request_body name = Some w \<Longrightarrow> convert t w = Inl m \<Longrightarrow>
   (name, m) \<in> set (wrong_fields convert p request_body)"
  using wrong_fields_member
    [of "\<lparr>arg_name = name, arg_required = r, arg_default = dflt, arg_type = t\<rparr>" p convert
       request_body m]
    parse_argument_present
    [of request_body "\<lparr>arg_name = name, arg_required = r, arg_default = dflt, arg_type = t\<rparr>"
       w convert]
  by simp

lemma parse_argument_omitted:
  "arg_name a \<notin> fst ` set request_body \<Longrightarrow> \<not> arg_required a \<Longrightarrow>
   parse_argument convert a request_body = Inr (arg_default a)"
proof -
  assume "arg_name a \<notin> fst ` set request_body" and "\<not> arg_required a"
  then have "map_of request_body (arg_name a) = None"
    by (simp add: map_of_eq_None_iff)
  then show ?thesis
    using \<open>\<not> arg_required a\<close> by (simp add: parse_argument_def)
qed

lemma resources_raise_parse_exception:
  "parser self True request = Inl (HTTPException code messages) \<Longrightarrow>
   SearchTableFilterAPI_post self request = (Inl (HTTPException code messages), []) \<and>
   SearchDashboardFilterAPI_post self request = (Inl (HTTPException code messages), [])"
  by (simp add: table_post_raised dashboard_post_raised base_post_parse_raises)

lemma init_parser:
  "parser (BaseFilterAPI_init reqparse px TI s) =
     reqparse
       \<lparr>bundle_errors = True,
         arguments =
           [\<lparr>arg_name = ''index'', arg_required = False,
             arg_default = PStr TI, arg_type = type_str\<rparr>,
            \<lparr>arg_name = ''page_index'', arg_required = False,
             arg_default = PInt 0, arg_type = type_int\<rparr>,
            \<lparr>arg_name = ''query_term'', arg_required = False,
             arg_default = PNone, arg_type = type_str\<rparr>,
            \<lparr>arg_name = ''search_request'', arg_required = False,
             arg_default = PNone, arg_type = type_dict\<rparr>]\<rparr>"
  by (simp add: BaseFilterAPI_init_def)

text \<open>
  C5. With the parser of the specification in the resources, a request body with a field
  that is none of \<open>index\<close>, \<open>page_index\<close>, \<open>query_term\<close>, \<open>search_request\<close> makes each
  resource raise the HTTP exception of status 400 without a call to the proxy, and the
  exception reports the unrecognized field together with every field of wrong type, not
  the first violation only.
\<close>

theorem unrecognized_field_rejected_with_all_errors:
  assumes "(k, v) \<in> set request_body"
    and "k \<notin> {''index'', ''page_index'', ''query_term'', ''search_request''}"
  shows "\<exists>errors.
      SearchTableFilterAPI_post
          (SearchTableFilterAPI_init (RequestParser_parse_args convert) px TI
             SearchTableResultSchema) request_body =
        (Inl (HTTPException 400 errors), []) \<and>
      SearchDashboardFilterAPI_post
          (SearchDashboardFilterAPI_init (RequestParser_parse_args convert) px TI
             SearchDashboardResultSchema) request_body =
        (Inl (HTTPException 400 errors), []) \<and>
      (k, ''unrecognized field'') \<in> set errors \<and>
      (\<forall>(name, t) \<in> set [(''index'', type_str), (''page_index'', type_int),
                          (''query_term'', type_str), (''search_request'', type_dict)].
         \<forall>w m. map_of request_body name = Some w \<longrightarrow> convert t w = Inl m \<longrightarrow>
           (name, m) \<in> set errors)"
proof -
  let ?p = "\<lparr>bundle_errors = True,
         arguments =
           [\<lparr>arg_name = ''index'', arg_required = False,
             arg_default = PStr TI, arg_type = type_str\<rparr>,
            \<lparr>arg_name = ''page_index'', arg_required = False,
             arg_default = PInt 0, arg_type = type_int\<rparr>,
            \<lparr>arg_name = ''query_term'', arg_required = False,
             arg_default = PNone, arg_type = type_str\<rparr>,
            \<lparr>arg_name = ''search_request'', arg_required = False,
             arg_default = PNone, arg_type = type_dict\<rparr>]\<rparr>"
  let ?errors = "wrong_fields convert ?p request_body @ unrecognized_fields ?p request_body"
  have unrec: "(k, ''unrecognized field'') \<in> set (unrecognized_fields ?p request_body)"
    using assms by (intro unrecognized_fields_member[where v = v]) simp_all
  then have k: "(k, ''unrecognized field'') \<in> set ?errors"
    by simp
  then obtain e es where es: "?errors = e # es"
    by (cases ?errors) auto
  have parse: "RequestParser_parse_args convert ?p True request_body =
      Inl (HTTPException 400 ?errors)"
    using parse_args_violations[of convert ?p request_body True e es] es by simp
  have wrong: "(name, m) \<in> set ?errors"
    if a: "\<lparr>arg_name = name, arg_required = False, arg_default = dflt, arg_type = t\<rparr>
          \<in> set (arguments ?p)"
      and w: "map_of request_body name = Some w" and m: "convert t w = Inl m"
    for name dflt t w m
    using wrong_fields_reported[where p = ?p and convert = convert, OF a w m] by simp
  have w1: "map_of request_body ''index'' = Some w \<Longrightarrow> convert type_str w = Inl m \<Longrightarrow>
      (''index'', m) \<in> set ?errors" for w m
    by (rule wrong[where dflt = "PStr TI"]) simp_all
  have w2: "map_of request_body ''page_index'' = Some w \<Longrightarrow> convert type_int w = Inl m \<Longrightarrow>
      (''page_index'', m) \<in> set ?errors" for w m
    by (rule wrong[where dflt = "PInt 0"]) simp_all
  have w3: "map_of request_body ''query_term'' = Some w \<Longrightarrow> convert type_str w = Inl m \<Longrightarrow>
      (''query_term'', m) \<in> set ?errors" for w m
    by (rule wrong[where dflt = PNone]) simp_all
  have w4: "map_of request_body ''search_request'' = Some w \<Longrightarrow> convert type_dict w = Inl m \<Longrightarrow>
      (''search_request'', m) \<in> set ?errors" for w m
    by (rule wrong[where dflt = PNone]) simp_all
  have t: "SearchTableFilterAPI_post
          (SearchTableFilterAPI_init (RequestParser_parse_args convert) px TI
             SearchTableResultSchema) request_body =
        (Inl (HTTPException 400 ?errors), [])"
    using parse
    by (intro conjunct1[OF resources_raise_parse_exception])
      (simp add: SearchTableFilterAPI_init_def init_parser)
  have d: "SearchDashboardFilterAPI_post
          (SearchDashboardFilterAPI_init (RequestParser_parse_args convert) px TI
             SearchDashboardResultSchema) request_body =
        (Inl (HTTPException 400 ?errors), [])"
    using parse
    by (intro conjunct2[OF resources_raise_parse_exception])
      (simp add: SearchDashboardFilterAPI_init_def init_parser)
  show ?thesis
  proof (intro exI[of _ ?errors] conjI)
    show "\<forall>(name, t) \<in> set [(''index'', type_str), (''page_index'', type_int),
                          (''query_term'', type_str), (''search_request'', type_dict)].
         \<forall>w m. map_of request_body name = Some w \<longrightarrow> convert t w = Inl m \<longrightarrow>
           (name, m) \<in> set ?errors"
      using w1 w2 w3 w4 by simp
  qed (rule t d k)+
qed

theorem unrecognized_field_rejected_with_all_errors_witness:
  "(let request_body = [(''page_index'', PStr ''x''), (''search_request'', PInt 5),
                        (''limit'', PInt 10)];
        errors = [(''page_index'', ''wrong type''), (''search_request'', ''wrong type''),
                  (''limit'', ''unrecognized field'')]
    in SearchTableFilterAPI_post
           (SearchTableFilterAPI_init (RequestParser_parse_args declared_type)
              (\<lambda>c. Inr [''t1'', ''t2'']) ''table_search_index'' rev) request_body =
         (Inl (HTTPException 400 errors), []) \<and>
       SearchDashboardFilterAPI_post
           (SearchDashboardFilterAPI_init (RequestParser_parse_args declared_type)
              (\<lambda>c. Inr [''t1'', ''t2'']) ''table_search_index'' rev) request_body =
         (Inl (HTTPException 400 errors), []))"
  using unrecognized_field_rejected_with_all_errors
    [where k = "''limit''" and v = "PInt 10"
       and request_body = "[(''page_index'', PStr ''x''), (''search_request'', PInt 5),
                        (''limit'', PInt 10)]"
       and convert = declared_type and px = "\<lambda>c. Inr [''t1'', ''t2'']"
       and TI = "''table_search_index''" and SearchTableResultSchema = rev
       and SearchDashboardResultSchema = rev]
  by (simp add: SearchTableFilterAPI_post_def SearchDashboardFilterAPI_post_def
      SearchTableFilterAPI_init_def SearchDashboardFilterAPI_init_def BaseFilterAPI_init_def
      BaseFilterAPI_post_def RequestParser_parse_args_def wrong_fields_def
      unrecognized_fields_def parse_argument_def)

lemma init_parse_page_index_default:
  assumes "parser (BaseFilterAPI_init (RequestParser_parse_args convert) px TI s) True
             request_body = Inr args"
    and "''page_index'' \<notin> fst ` set request_body"
  shows "args ''page_index'' = Some (PInt 0)"
proof -
  have "parse_argument convert
      \<lparr>arg_name = ''page_index'', arg_required = False, arg_default = PInt 0,
         arg_type = type_int\<rparr> request_body = Inr (PInt 0)"
    using parse_argument_omitted
      [of "\<lparr>arg_name = ''page_index'', arg_required = False, arg_default = PInt 0,
         arg_type = type_int\<rparr>" request_body convert] assms(2)
    by simp
  moreover have "args = parsed_namespace convert
       \<lparr>bundle_errors = True,
         arguments =
           [\<lparr>arg_name = ''index'', arg_required = False,
             arg_default = PStr TI, arg_type = type_str\<rparr>,
            \<lparr>arg_name = ''page_index'', arg_required = False,
             arg_default = PInt 0, arg_type = type_int\<rparr>,
            \<lparr>arg_name = ''query_term'', arg_required = False,
             arg_default = PNone, arg_type = type_str\<rparr>,
            \<lparr>arg_name = ''search_request'', arg_required = False,
             arg_default = PNone, arg_type = type_dict\<rparr>]\<rparr> request_body"
    using assms(1) unfolding init_parser by (rule parse_args_returns[THEN conjunct1])
  ultimately show ?thesis
    by (simp add: parsed_namespace_def split: sum.splits)
qed

lemma init_parse_index_default:
  assumes "parser (BaseFilterAPI_init (RequestParser_parse_args convert) px TI s) True
             request_body = Inr args"
    and "''index'' \<notin> fst ` set request_body"
  shows "args ''index'' = Some (PStr TI)"
proof -
  have "parse_argument convert
      \<lparr>arg_name = ''index'', arg_required = False, arg_default = PStr TI,
         arg_type = type_str\<rparr> request_body = Inr (PStr TI)"
    using parse_argument_omitted
      [of "\<lparr>arg_name = ''index'', arg_required = False, arg_default = PStr TI,
         arg_type = type_str\<rparr>" request_body convert] assms(2)
    by simp
  moreover have "args = parsed_namespace convert
       \<lparr>bundle_errors = True,
         arguments =
           [\<lparr>arg_name = ''index'', arg_required = False,
             arg_default = PStr TI, arg_type = type_str\<rparr>,
            \<lparr>arg_name = ''page_index'', arg_required = False,
             arg_default = PInt 0, arg_type = type_int\<rparr>,
            \<lparr>arg_name = ''query_term'', arg_required = False,
             arg_default = PNone, arg_type = type_str\<rparr>,
            \<lparr>arg_name = ''search_request'', arg_required = False,
             arg_default = PNone, arg_type = type_dict\<rparr>]\<rparr> request_body"
    using assms(1) unfolding init_parser by (rule parse_args_returns[THEN conjunct1])
  ultimately show ?thesis
    by (simp add: parsed_namespace_def)
qed

lemma base_post_calls_page_index:
  assumes "\<And>args. parser self True request = Inr args \<Longrightarrow> args ''page_index'' = Some v"
    and "c \<in> set (snd (BaseFilterAPI_post self request))"
  shows "page_index c = v"
proof (cases "parser self True request")
  case (Inl e)
  with assms(2) show ?thesis by (simp add: base_post_parse_raises)
next
  case (Inr args)
  from base_post_calls_are_parsed[OF Inr assms(2)] assms(1)[OF Inr] show ?thesis
    by (simp add: args_get_Some)
qed

lemma base_post_calls_index:
  assumes "\<And>args. parser self True request = Inr args \<Longrightarrow> args ''index'' = Some v"
    and "c \<in> set (snd (BaseFilterAPI_post self request))"
  shows "index c = v"
proof (cases "parser self True request")
  case (Inl e)
  with assms(2) show ?thesis by (simp add: base_post_parse_raises)
next
  case (Inr args)
  from base_post_calls_are_parsed[OF Inr assms(2)] assms(1)[OF Inr] show ?thesis
    by simp
qed

text \<open>
  C6. With the parser of the specification in the resources, a request body without
  \<open>page_index\<close> parses to \<open>page_index\<close> 0, and one without \<open>index\<close> to the constant
  \<open>TABLE_INDEX\<close>, on the table resource and on the dashboard resource alike; every call
  that either resource then makes to the proxy carries the defaulted value.
\<close>

theorem omitted_page_index_and_index_take_defaults:
  assumes "table = SearchTableFilterAPI_init (RequestParser_parse_args convert) px TABLE_INDEX
             SearchTableResultSchema"
    and "dashboard = SearchDashboardFilterAPI_init (RequestParser_parse_args convert) px
             TABLE_INDEX SearchDashboardResultSchema"
  shows "(''page_index'' \<notin> fst ` set request_body \<longrightarrow>
            (\<forall>args. parser table True request_body = Inr args \<longrightarrow>
               args ''page_index'' = Some (PInt 0)) \<and>
            (\<forall>args. parser dashboard True request_body = Inr args \<longrightarrow>
               args ''page_index'' = Some (PInt 0)) \<and>
            (\<forall>c \<in> set (snd (SearchTableFilterAPI_post table request_body)).
               page_index c = PInt 0) \<and>
            (\<forall>c \<in> set (snd (SearchDashboardFilterAPI_post dashboard request_body)).
               page_index c = PInt 0)) \<and>
         (''index'' \<notin> fst ` set request_body \<longrightarrow>
            (\<forall>args. parser table True request_body = Inr args \<longrightarrow>
               args ''index'' = Some (PStr TABLE_INDEX)) \<and>
            (\<forall>args. parser dashboard True request_body = Inr args \<longrightarrow>
               args ''index'' = Some (PStr TABLE_INDEX)) \<and>
            (\<forall>c \<in> set (snd (SearchTableFilterAPI_post table request_body)).
               index c = PStr TABLE_INDEX) \<and>
            (\<forall>c \<in> set (snd (SearchDashboardFilterAPI_post dashboard request_body)).
               index c = PStr TABLE_INDEX))"
proof -
  have t: "table = BaseFilterAPI_init (RequestParser_parse_args convert) px TABLE_INDEX
      SearchTableResultSchema"
    using assms(1) by (simp add: SearchTableFilterAPI_init_def)
  have d: "dashboard = BaseFilterAPI_init (RequestParser_parse_args convert) px TABLE_INDEX
      SearchDashboardResultSchema"
    using assms(2) by (simp add: SearchDashboardFilterAPI_init_def)
  have pt: "args ''page_index'' = Some (PInt 0)"
    if "''page_index'' \<notin> fst ` set request_body"
      and "parser table True request_body = Inr args" for args
    using that(2) unfolding t by (rule init_parse_page_index_default) (rule that(1))
  have pd: "args ''page_index'' = Some (PInt 0)"
    if "''page_index'' \<notin> fst ` set request_body"
      and "parser dashboard True request_body = Inr args" for args
    using that(2) unfolding d by (rule init_parse_page_index_default) (rule that(1))
  have it: "args ''index'' = Some (PStr TABLE_INDEX)"
    if "''index'' \<notin> fst ` set request_body"
      and "parser table True request_body = Inr args" for args
    using that(2) unfolding t by (rule init_parse_index_default) (rule that(1))
  have id: "args ''index'' = Some (PStr TABLE_INDEX)"
    if "''index'' \<notin> fst ` set request_body"
      and "parser dashboard True request_body = Inr args" for args
    using that(2) unfolding d by (rule init_parse_index_default) (rule that(1))
  have cpt: "page_index c = PInt 0"
    if "''page_index'' \<notin> fst ` set request_body"
      and "c \<in> set (snd (SearchTableFilterAPI_post table request_body))" for c
  proof (rule base_post_calls_page_index[where self = table and request = request_body])
    show "c \<in> set (snd (BaseFilterAPI_post table request_body))"
      using that(2) by (simp only: table_post_calls)
  qed (rule pt[OF that(1)])
  have cpd: "page_index c = PInt 0"
    if "''page_index'' \<notin> fst ` set request_body"
      and "c \<in> set (snd (SearchDashboardFilterAPI_post dashboard request_body))" for c
  proof (rule base_post_calls_page_index[where self = dashboard and request = request_body])
    show "c \<in> set (snd (BaseFilterAPI_post dashboard request_body))"
      using that(2) by (simp only: dashboard_post_calls)
  qed (rule pd[OF that(1)])
  have cit: "index c = PStr TABLE_INDEX"
    if "''index'' \<notin> fst ` set request_body"
      and "c \<in> set (snd (SearchTableFilterAPI_post table request_body))" for c
  proof (rule base_post_calls_index[where self = table and request = request_body])
    show "c \<in> set (snd (BaseFilterAPI_post table request_body))"
      using that(2) by (simp only: table_post_calls)
  qed (rule it[OF that(1)])
  have cid: "index c = PStr TABLE_INDEX"
    if "''index'' \<notin> fst ` set request_body"
      and "c \<in> set (snd (SearchDashboardFilterAPI_post dashboard request_body))" for c
  proof (rule base_post_calls_index[where self = dashboard and request = request_body])
    show "c \<in> set (snd (BaseFilterAPI_post dashboard request_body))"
      using that(2) by (simp only: dashboard_post_calls)
  qed (rule id[OF that(1)])
  show ?thesis
    by (intro conjI impI allI ballI; (rule pt pd it id cpt cpd cit cid; assumption))
qed

theorem omitted_page_index_and_index_take_defaults_witness:
  "(let request_body = [(''search_request'', PDict [(''resource'', PStr ''table'')]),
                        (''query_term'', PStr ''foo'')];
        call = \<lparr>search_request = PDict [(''resource'', PStr ''table'')],
                 query_term = PStr ''foo'', page_index = PInt 0,
                 index = PStr ''table_search_index''\<rparr>
    in ''page_index'' \<notin> fst ` set request_body \<and> ''index'' \<notin> fst ` set request_body \<and>
       SearchTableFilterAPI_post
           (SearchTableFilterAPI_init (RequestParser_parse_args declared_type)
              (\<lambda>c. Inr [''t1'', ''t2'']) ''table_search_index'' rev) request_body =
         (Inr (Sequence [''1t'', ''2t''], OK), [call]) \<and>
       SearchDashboardFilterAPI_post
           (SearchDashboardFilterAPI_init (RequestParser_parse_args declared_type)
              (\<lambda>c. Inr [''t1'', ''t2'']) ''table_search_index'' rev) request_body =
         (Inr (Sequence [''1t'', ''2t''], OK), [call]))"
  using omitted_page_index_and_index_take_defaults
    [where convert = declared_type and px = "\<lambda>c. Inr [''t1'', ''t2'']"
       and TABLE_INDEX = "''table_search_index''" and SearchTableResultSchema = rev
       and SearchDashboardResultSchema = rev
       and request_body = "[(''search_request'', PDict [(''resource'', PStr ''table'')]),
                        (''query_term'', PStr ''foo'')]", OF refl refl]
  by (simp add: SearchTableFilterAPI_post_def SearchDashboardFilterAPI_post_def
      SearchTableFilterAPI_init_def SearchDashboardFilterAPI_init_def BaseFilterAPI_init_def
      BaseFilterAPI_post_def RequestParser_parse_args_def wrong_fields_def
      unrecognized_fields_def parse_argument_def parsed_namespace_def args_get_def
      args_getitem_def)

end
